theory Spec2Isabelle
  imports Main
begin

section \<open>Faults and native integers\<close>

text \<open>
  The calculator (\<^verbatim>\<open>calculator.cpp\<close>) has no exceptions and no error results: every
  function returns a plain value (\<^verbatim>\<open>int\<close>, \<^verbatim>\<open>Token\<close>, \<^verbatim>\<open>AstNode *\<close>). A \<open>fault\<close> is
  therefore not an error that the program reports. It marks an execution that leaves the
  behaviour defined by the C++ standard at a point where the process is killed on the
  usual platforms:
  \<^item> \<open>UB_division_by_zero\<close>: \<^verbatim>\<open>/\<close> or \<^verbatim>\<open>%\<close> with a zero divisor;
  \<^item> \<open>UB_signed_overflow\<close>: \<^verbatim>\<open>/\<close> or \<^verbatim>\<open>%\<close> whose quotient is not an \<^verbatim>\<open>int\<close> (the least
    \<^verbatim>\<open>int\<close> divided by -1), on which the division instruction traps as it does on zero;
  \<^item> \<open>UB_null_dereference\<close>: a member access through a null \<^verbatim>\<open>AstNode *\<close>;
  \<^item> \<open>UB_inactive_union_member\<close>: a read of a union member other than the one the tag
    names;
  \<^item> \<open>Uncaught_out_of_range\<close>: \<^verbatim>\<open>string_view::substr\<close> with a start beyond the end, an
    exception that nothing catches (the process terminates).
  A result is \<open>Inl f\<close> for a fault and \<open>Inr v\<close> for a returned value.

  The type \<^verbatim>\<open>int\<close> is 32 bits wide. The results of \<^verbatim>\<open>+\<close>, \<^verbatim>\<open>-\<close>, \<^verbatim>\<open>*\<close> and unary \<^verbatim>\<open>-\<close> are
  reduced to 32-bit two's complement, which is what the compiled program computes when
  a result leaves the range: the evaluation goes on with the wrapped value.
\<close>

datatype fault =
    UB_division_by_zero
  | UB_signed_overflow
  | UB_null_dereference
  | UB_inactive_union_member
  | Uncaught_out_of_range

definition INT_MIN :: int where
  "INT_MIN = - 2147483648"

definition INT_MAX :: int where
  "INT_MAX = 2147483647"

definition in_int_range :: "int \<Rightarrow> bool" where
  "in_int_range v = (INT_MIN \<le> v \<and> v \<le> INT_MAX)"

text \<open>The value in the range of \<^verbatim>\<open>int\<close> that differs from \<open>v\<close> by a multiple of \<open>2^32\<close>.\<close>

definition wrap_int :: "int \<Rightarrow> int" where
  "wrap_int v = (v + 2147483648) mod 4294967296 - 2147483648"

definition int_add :: "int \<Rightarrow> int \<Rightarrow> int" where
  "int_add a b = wrap_int (a + b)"

definition int_sub :: "int \<Rightarrow> int \<Rightarrow> int" where
  "int_sub a b = wrap_int (a - b)"

definition int_mul :: "int \<Rightarrow> int \<Rightarrow> int" where
  "int_mul a b = wrap_int (a * b)"

definition int_neg :: "int \<Rightarrow> int" where
  "int_neg a = wrap_int (- a)"

text \<open>C++ division truncates towards zero; the remainder takes the sign of the dividend.\<close>

definition trunc_div :: "int \<Rightarrow> int \<Rightarrow> int" where
  "trunc_div a b = sgn a * sgn b * (\<bar>a\<bar> div \<bar>b\<bar>)"

definition trunc_mod :: "int \<Rightarrow> int \<Rightarrow> int" where
  "trunc_mod a b = sgn a * (\<bar>a\<bar> mod \<bar>b\<bar>)"

definition int_div :: "int \<Rightarrow> int \<Rightarrow> fault + int" where
  "int_div a b =
     (if b = 0 then Inl UB_division_by_zero
      else if \<not> in_int_range (trunc_div a b) then Inl UB_signed_overflow
      else Inr (trunc_div a b))"

definition int_mod :: "int \<Rightarrow> int \<Rightarrow> fault + int" where
  "int_mod a b =
     (if b = 0 then Inl UB_division_by_zero
      else if \<not> in_int_range (trunc_div a b) then Inl UB_signed_overflow
      else Inr (trunc_mod a b))"

section \<open>Tokens\<close>

text \<open>
  \<^verbatim>\<open>struct Token\<close> is a tag and a union; the model is the tagged sum, and the readers
  of the union members say what a read under the wrong tag is.
\<close>

datatype Op = Plus | Minus | Asterisk | Slash | Percent | Lbrace | Rbrace

datatype Token = Oper Op | Num int | Eof | Ident string | Assign

datatype TokenType = TOper | TNum | TEof | TIdent | TAssign

fun token_type :: "Token \<Rightarrow> TokenType" where
  "token_type (Oper _) = TOper"
| "token_type (Num _) = TNum"
| "token_type Eof = TEof"
| "token_type (Ident _) = TIdent"
| "token_type Assign = TAssign"

fun token_op :: "Token \<Rightarrow> fault + Op" where
  "token_op (Oper op) = Inr op"
| "token_op _ = Inl UB_inactive_union_member"

fun token_num :: "Token \<Rightarrow> fault + int" where
  "token_num (Num n) = Inr n"
| "token_num _ = Inl UB_inactive_union_member"

fun token_ident :: "Token \<Rightarrow> fault + string" where
  "token_ident (Ident s) = Inr s"
| "token_ident _ = Inl UB_inactive_union_member"

definition not_eof :: "Token \<Rightarrow> bool" where
  "not_eof t = (token_type t \<noteq> TEof)"

text \<open>\<^verbatim>\<open>Token::oper(char)\<close> casts the character to \<^verbatim>\<open>Op\<close>; the lexer calls it on the
  seven operator characters only.\<close>

definition op_of_char :: "char \<Rightarrow> Op option" where
  "op_of_char c =
     (if c = CHR ''+'' then Some Plus
      else if c = CHR ''-'' then Some Minus
      else if c = CHR ''*'' then Some Asterisk
      else if c = CHR ''/'' then Some Slash
      else if c = CHR ''%'' then Some Percent
      else if c = CHR ''('' then Some Lbrace
      else if c = CHR '')'' then Some Rbrace
      else None)"

section \<open>Lexer\<close>

text \<open>
  The fields \<^verbatim>\<open>input\<close>, \<^verbatim>\<open>cur\<close>, \<^verbatim>\<open>next\<close> and \<^verbatim>\<open>ch\<close> of \<^verbatim>\<open>struct Lexer\<close>. The two
  positions only count upwards from 0, one step per character read; they are natural
  numbers here (an input line is far shorter than \<open>2^31\<close> characters).
\<close>

record Lexer =
  l_input :: string
  l_cur :: nat
  l_next :: nat
  l_ch :: char

definition NUL :: char where
  "NUL = CHR 0x00"

definition read_char :: "Lexer \<Rightarrow> Lexer" where
  "read_char l =
     l\<lparr> l_ch := (if length (l_input l) \<le> l_next l then NUL else l_input l ! l_next l),
        l_cur := l_next l,
        l_next := l_next l + 1 \<rparr>"

definition new_Lexer :: "string \<Rightarrow> Lexer" where
  "new_Lexer inp = read_char \<lparr> l_input = inp, l_cur = 0, l_next = 0, l_ch = NUL \<rparr>"

definition is_digit :: "char \<Rightarrow> bool" where
  "is_digit c = ((of_char (CHR ''0'') :: nat) \<le> of_char c \<and> (of_char c :: nat) \<le> of_char (CHR ''9''))"

definition is_letter :: "char \<Rightarrow> bool" where
  "is_letter c =
     (((of_char (CHR ''a'') :: nat) \<le> of_char c \<and> (of_char c :: nat) \<le> of_char (CHR ''z''))
      \<or> ((of_char (CHR ''A'') :: nat) \<le> of_char c \<and> (of_char c :: nat) \<le> of_char (CHR ''Z''))
      \<or> c = CHR ''_'')"

text \<open>What is left to read: the characters from \<open>l_next\<close> on, and the current one
  unless it is the terminator. Every loop of the lexer runs on a current character that
  is not the terminator, and \<open>read_char\<close> then makes this number smaller.\<close>

definition lexer_rest :: "Lexer \<Rightarrow> nat" where
  "lexer_rest l = (length (l_input l) - l_next l) + (if l_ch l = NUL then 0 else 1)"

lemma read_char_rest: "l_ch l \<noteq> NUL \<Longrightarrow> lexer_rest (read_char l) < lexer_rest l"
  by (auto simp: lexer_rest_def read_char_def)

lemma read_char_rest_le: "lexer_rest (read_char l) \<le> lexer_rest l"
  by (auto simp: lexer_rest_def read_char_def)

lemma is_digit_not_NUL: "is_digit c \<Longrightarrow> c \<noteq> NUL"
  by (auto simp: is_digit_def NUL_def)

lemma is_letter_not_NUL: "is_letter c \<Longrightarrow> c \<noteq> NUL"
  by (auto simp: is_letter_def NUL_def)

function skipspace :: "Lexer \<Rightarrow> Lexer" where
  "skipspace l = (if l_ch l = CHR '' '' then skipspace (read_char l) else l)"
  by pat_completeness auto
termination
  by (relation "measure lexer_rest") (auto simp: read_char_rest NUL_def)

declare skipspace.simps [simp del]

text \<open>\<^verbatim>\<open>read_number\<close>: the loop on the accumulator \<^verbatim>\<open>num\<close>, started at 0.\<close>

function read_number_loop :: "int \<Rightarrow> Lexer \<Rightarrow> int \<times> Lexer" where
  "read_number_loop num l =
     (if is_digit (l_ch l) then
        read_number_loop
          (int_add (int_mul num 10) (int (of_char (l_ch l)) - int (of_char (CHR ''0''))))
          (read_char l)
      else (num, l))"
  by pat_completeness auto
termination
  by (relation "measure (\<lambda>(num, l). lexer_rest l)")
     (simp_all add: read_char_rest is_digit_not_NUL)

declare read_number_loop.simps [simp del]

definition read_number :: "Lexer \<Rightarrow> int \<times> Lexer" where
  "read_number l = read_number_loop 0 l"

function read_identifier_loop :: "Lexer \<Rightarrow> Lexer" where
  "read_identifier_loop l =
     (if is_letter (l_ch l) then read_identifier_loop (read_char l) else l)"
  by pat_completeness auto
termination
  by (relation "measure lexer_rest") (simp_all add: read_char_rest is_letter_not_NUL)

declare read_identifier_loop.simps [simp del]

text \<open>\<^verbatim>\<open>string_view::substr(pos, n)\<close> with \<^verbatim>\<open>n = cur - start\<close> computed in \<^verbatim>\<open>int\<close> and
  converted to \<^verbatim>\<open>size_t\<close>: a negative difference becomes a huge count, which
  \<^verbatim>\<open>substr\<close> clamps to the end of the input.\<close>

definition substr :: "string \<Rightarrow> nat \<Rightarrow> int \<Rightarrow> fault + string" where
  "substr s pos n =
     (if length s < pos then Inl Uncaught_out_of_range
      else if n < 0 then Inr (drop pos s)
      else Inr (take (nat n) (drop pos s)))"

definition read_identifier :: "Lexer \<Rightarrow> fault + (string \<times> Lexer)" where
  "read_identifier l =
     (let start = l_cur l; l' = read_identifier_loop l in
      case substr (l_input l') start (int (l_cur l') - int start) of
        Inl f \<Rightarrow> Inl f
      | Inr s \<Rightarrow> Inr (s, l'))"

definition next_token :: "Lexer \<Rightarrow> fault + (Token \<times> Lexer)" where
  "next_token l0 =
     (let l = skipspace l0 in
      case op_of_char (l_ch l) of
        Some op \<Rightarrow> Inr (Oper op, read_char l)
      | None \<Rightarrow>
          if l_ch l = CHR ''='' then Inr (Assign, read_char l)
          else if l_ch l = NUL then Inr (Eof, l)
          else if is_digit (l_ch l) then
            (case read_number l of (n, l') \<Rightarrow> Inr (Num n, l'))
          else if is_letter (l_ch l) then
            (case read_identifier l of Inl f \<Rightarrow> Inl f | Inr (s, l') \<Rightarrow> Inr (Ident s, l'))
          else Inr (Eof, l))"

text \<open>No call of the lexer puts characters back, and a token other than \<open>Eof\<close> uses at
  least one.\<close>

lemma skipspace_rest: "lexer_rest (skipspace l) \<le> lexer_rest l"
proof (induction l rule: skipspace.induct)
  case (1 l)
  show ?case
  proof (cases "l_ch l = CHR '' ''")
    case True
    with 1 have "lexer_rest (skipspace (read_char l)) \<le> lexer_rest (read_char l)" by simp
    also have "\<dots> \<le> lexer_rest l" by (rule read_char_rest_le)
    finally show ?thesis using True by (simp add: skipspace.simps [of l])
  next
    case False
    then show ?thesis by (simp add: skipspace.simps [of l])
  qed
qed

lemma read_number_loop_rest:
  "lexer_rest (snd (read_number_loop num l)) \<le> lexer_rest l"
proof (induction num l rule: read_number_loop.induct)
  case (1 num l)
  show ?case
  proof (cases "is_digit (l_ch l)")
    case True
    let ?n = "int_add (int_mul num 10) (int (of_char (l_ch l)) - int (of_char (CHR ''0'')))"
    from "1.IH" [OF True]
    have "lexer_rest (snd (read_number_loop ?n (read_char l))) \<le> lexer_rest (read_char l)" .
    also have "\<dots> \<le> lexer_rest l" by (rule read_char_rest_le)
    finally show ?thesis using True by (simp add: read_number_loop.simps [of num l])
  next
    case False
    then show ?thesis by (simp add: read_number_loop.simps [of num l])
  qed
qed

lemma read_number_rest:
  assumes "is_digit (l_ch l)"
  shows "lexer_rest (snd (read_number l)) < lexer_rest l"
proof -
  let ?n = "int_add (int_mul 0 10) (int (of_char (l_ch l)) - int (of_char (CHR ''0'')))"
  have "read_number l = read_number_loop ?n (read_char l)"
    using assms by (simp add: read_number_def read_number_loop.simps [of 0 l])
  then have "lexer_rest (snd (read_number l)) \<le> lexer_rest (read_char l)"
    by (simp add: read_number_loop_rest)
  also have "\<dots> < lexer_rest l" using assms by (simp add: read_char_rest is_digit_not_NUL)
  finally show ?thesis .
qed

lemma read_identifier_loop_rest: "lexer_rest (read_identifier_loop l) \<le> lexer_rest l"
proof (induction l rule: read_identifier_loop.induct)
  case (1 l)
  show ?case
  proof (cases "is_letter (l_ch l)")
    case True
    with 1 have "lexer_rest (read_identifier_loop (read_char l)) \<le> lexer_rest (read_char l)"
      by simp
    also have "\<dots> \<le> lexer_rest l" by (rule read_char_rest_le)
    finally show ?thesis using True by (simp add: read_identifier_loop.simps [of l])
  next
    case False
    then show ?thesis by (simp add: read_identifier_loop.simps [of l])
  qed
qed

lemma read_identifier_rest:
  assumes "read_identifier l = Inr (s, l')" and "is_letter (l_ch l)"
  shows "lexer_rest l' < lexer_rest l"
proof -
  from assms(1) have "l' = read_identifier_loop l"
    by (auto simp: read_identifier_def Let_def split: sum.splits)
  also have "\<dots> = read_identifier_loop (read_char l)"
    using assms(2) by (simp add: read_identifier_loop.simps [of l])
  finally have "lexer_rest l' \<le> lexer_rest (read_char l)"
    by (simp add: read_identifier_loop_rest)
  also have "\<dots> < lexer_rest l" using assms(2) by (simp add: read_char_rest is_letter_not_NUL)
  finally show ?thesis .
qed

lemma op_of_char_not_NUL: "op_of_char c = Some op \<Longrightarrow> c \<noteq> NUL"
  by (auto simp: op_of_char_def NUL_def split: if_splits)

lemma next_token_rest:
  assumes "next_token l = Inr (t, l')"
  shows "lexer_rest l' \<le> lexer_rest l" and "t \<noteq> Eof \<Longrightarrow> lexer_rest l' < lexer_rest l"
proof -
  let ?s = "skipspace l"
  have s: "lexer_rest ?s \<le> lexer_rest l" by (rule skipspace_rest)
  have "lexer_rest l' \<le> lexer_rest ?s \<and> (t \<noteq> Eof \<longrightarrow> lexer_rest l' < lexer_rest ?s)"
  proof (cases "op_of_char (l_ch ?s)")
    case (Some op)
    with assms have "l' = read_char ?s" by (simp add: next_token_def Let_def)
    with Some show ?thesis
      using read_char_rest [of ?s] op_of_char_not_NUL [of "l_ch ?s" op] by auto
  next
    case None
    show ?thesis
    proof (cases "l_ch ?s = CHR ''=''")
      case True
      with None assms have "l' = read_char ?s" by (simp add: next_token_def Let_def)
      with True show ?thesis using read_char_rest [of ?s] by (auto simp: NUL_def)
    next
      case ne: False
      show ?thesis
      proof (cases "l_ch ?s = NUL")
        case True
        with None ne assms show ?thesis by (simp add: next_token_def Let_def)
      next
        case nn: False
        show ?thesis
        proof (cases "is_digit (l_ch ?s)")
          case True
          with None ne nn assms have "l' = snd (read_number ?s)"
            by (auto simp: next_token_def Let_def split: prod.splits)
          with read_number_rest [OF True] show ?thesis by simp
        next
          case nd: False
          show ?thesis
          proof (cases "is_letter (l_ch ?s)")
            case True
            with None ne nn nd assms obtain n where "read_identifier ?s = Inr (n, l')"
              by (auto simp: next_token_def Let_def split: sum.splits)
            from read_identifier_rest [OF this True] show ?thesis by simp
          next
            case False
            with None ne nn nd assms show ?thesis by (simp add: next_token_def Let_def)
          qed
        qed
      qed
    qed
  qed
  with s show "lexer_rest l' \<le> lexer_rest l" and "t \<noteq> Eof \<Longrightarrow> lexer_rest l' < lexer_rest l"
    by auto
qed

section \<open>Syntax trees and statements\<close>

text \<open>
  \<^verbatim>\<open>typedef AstNode *Expression\<close>: an expression is a pointer to a node, and the parser
  returns the null pointer where it gives up. \<open>Nullptr\<close> is that pointer; the other
  constructors are the four node types with the union member each one uses. A child of a
  node is again a pointer, so it can be \<open>Nullptr\<close> too.
\<close>

datatype BinaryOp = Add | Sub | Prod | Div | Mod

datatype Expression =
    Nullptr
  | Literal int
  | Identifier string
  | BinaryExpression BinaryOp Expression Expression
  | NegativeExpression Expression

text \<open>\<^verbatim>\<open>struct Statement\<close>: the tag \<^verbatim>\<open>Expression\<close> or \<^verbatim>\<open>Assignment\<close> and its union.\<close>

datatype Statement = ExpressionStmt Expression | Assignment string Expression

section \<open>Parser\<close>

text \<open>The fields \<^verbatim>\<open>lexer\<close>, \<^verbatim>\<open>cur\<close> and \<^verbatim>\<open>next\<close> of \<^verbatim>\<open>struct Parser\<close>.\<close>

record Parser =
  p_lexer :: Lexer
  p_cur :: Token
  p_next :: Token

definition read_token :: "Parser \<Rightarrow> fault + Parser" where
  "read_token p =
     (case next_token (p_lexer p) of
        Inl f \<Rightarrow> Inl f
      | Inr (t, l') \<Rightarrow> Inr \<lparr> p_lexer = l', p_cur = p_next p, p_next = t \<rparr>)"

text \<open>The constructor reads the first two tokens.\<close>

definition new_Parser :: "string \<Rightarrow> fault + Parser" where
  "new_Parser inp =
     (case next_token (new_Lexer inp) of
        Inl f \<Rightarrow> Inl f
      | Inr (c, l1) \<Rightarrow>
          (case next_token l1 of
             Inl f \<Rightarrow> Inl f
           | Inr (n, l2) \<Rightarrow> Inr \<lparr> p_lexer = l2, p_cur = c, p_next = n \<rparr>))"

definition LOWEST :: nat where "LOWEST = 0"
definition ADD_SUB :: nat where "ADD_SUB = 1"
definition PROD_DIV_MOD :: nat where "PROD_DIV_MOD = 2"
definition PREFIX :: nat where "PREFIX = 3"

fun precedence :: "Token \<Rightarrow> nat" where
  "precedence (Oper Plus) = ADD_SUB"
| "precedence (Oper Minus) = ADD_SUB"
| "precedence (Oper Asterisk) = PROD_DIV_MOD"
| "precedence (Oper Slash) = PROD_DIV_MOD"
| "precedence (Oper Percent) = PROD_DIV_MOD"
| "precedence _ = LOWEST"

definition cur_precedence :: "Parser \<Rightarrow> nat" where
  "cur_precedence p = precedence (p_cur p)"

definition next_precedence :: "Parser \<Rightarrow> nat" where
  "next_precedence p = precedence (p_next p)"

text \<open>The \<^verbatim>\<open>switch\<close> of \<^verbatim>\<open>parse_infix_expression\<close> from the operator token to the node's
  operator; the loop of \<^verbatim>\<open>parse_expression\<close> lists the same five cases.\<close>

fun binary_op :: "Op \<Rightarrow> BinaryOp option" where
  "binary_op Plus = Some Add"
| "binary_op Minus = Some Sub"
| "binary_op Asterisk = Some Prod"
| "binary_op Slash = Some Div"
| "binary_op Percent = Some Mod"
| "binary_op _ = None"

text \<open>
  The functions of the parser work on the parser's fields; here each takes the parser
  and returns the expression with the parser it leaves behind. \<open>parse_expression_loop\<close>
  is the \<^verbatim>\<open>while\<close> loop of \<^verbatim>\<open>parse_expression\<close>, entered with the prefix term as
  \<open>left\<close>. The reads \<^verbatim>\<open>this->cur.op\<close> are \<open>token_op\<close>.
\<close>

function parse_expression :: "nat \<Rightarrow> Parser \<Rightarrow> fault + (Expression \<times> Parser)"
  and parse_prefix_expression :: "Parser \<Rightarrow> fault + (Expression \<times> Parser)"
  and parse_grouped_expression :: "Parser \<Rightarrow> fault + (Expression \<times> Parser)"
  and parse_infix_expression :: "Expression \<Rightarrow> Parser \<Rightarrow> fault + (Expression \<times> Parser)"
  and parse_expression_loop :: "nat \<Rightarrow> Expression \<Rightarrow> Parser \<Rightarrow> fault + (Expression \<times> Parser)"
where
  "parse_expression prec p =
     (case p_cur p of
        Oper op \<Rightarrow>
          (if op = Plus \<or> op = Minus then
             (case parse_prefix_expression p of
                Inl f \<Rightarrow> Inl f
              | Inr (left, p1) \<Rightarrow> parse_expression_loop prec left p1)
           else if op = Lbrace then
             (case parse_grouped_expression p of
                Inl f \<Rightarrow> Inl f
              | Inr (left, p1) \<Rightarrow> parse_expression_loop prec left p1)
           else Inr (Nullptr, p))
      | Ident s \<Rightarrow> parse_expression_loop prec (Identifier s) p
      | Num n \<Rightarrow> parse_expression_loop prec (Literal n) p
      | _ \<Rightarrow> Inr (Nullptr, p))"
| "parse_prefix_expression p =
     (case token_op (p_cur p) of
        Inl f \<Rightarrow> Inl f
      | Inr op \<Rightarrow>
          (case read_token p of
             Inl f \<Rightarrow> Inl f
           | Inr p1 \<Rightarrow>
               (if op = Plus then parse_expression PREFIX p1
                else if op = Minus then
                  (case parse_expression PREFIX p1 of
                     Inl f \<Rightarrow> Inl f
                   | Inr (child, p2) \<Rightarrow> Inr (NegativeExpression child, p2))
                else Inr (Nullptr, p1))))"
| "parse_grouped_expression p =
     (case read_token p of
        Inl f \<Rightarrow> Inl f
      | Inr p1 \<Rightarrow>
          (case parse_expression LOWEST p1 of
             Inl f \<Rightarrow> Inl f
           | Inr (expr, p2) \<Rightarrow>
               (if token_type (p_next p2) \<noteq> TOper \<or> token_op (p_next p2) \<noteq> Inr Rbrace
                then Inr (Nullptr, p2)
                else (case read_token p2 of
                        Inl f \<Rightarrow> Inl f
                      | Inr p3 \<Rightarrow> Inr (expr, p3)))))"
| "parse_infix_expression left p =
     (case token_op (p_cur p) of
        Inl f \<Rightarrow> Inl f
      | Inr op \<Rightarrow>
          (case binary_op op of
             None \<Rightarrow> Inr (Nullptr, p)
           | Some bop \<Rightarrow>
               (case read_token p of
                  Inl f \<Rightarrow> Inl f
                | Inr p1 \<Rightarrow>
                    (case parse_expression (cur_precedence p) p1 of
                       Inl f \<Rightarrow> Inl f
                     | Inr (right, p2) \<Rightarrow> Inr (BinaryExpression bop left right, p2)))))"
| "parse_expression_loop prec left p =
     (if not_eof (p_next p) \<and> prec < next_precedence p then
        (case read_token p of
           Inl f \<Rightarrow> Inl f
         | Inr p1 \<Rightarrow>
             (case token_op (p_cur p1) of
                Inl f \<Rightarrow> Inl f
              | Inr op \<Rightarrow>
                  (if binary_op op \<noteq> None then
                     (case parse_infix_expression left p1 of
                        Inl f \<Rightarrow> Inl f
                      | Inr (left', p2) \<Rightarrow> parse_expression_loop prec left' p2)
                   else Inr (Nullptr, p1))))
      else Inr (left, p))"
  by pat_completeness auto

text \<open>
  Termination. A token is consumed between any two nested calls, so the number of
  characters and buffered tokens still to be read decreases; the calls that follow
  another call start from the parser that call returned, which has no more left to read
  than the one it was given.
\<close>

abbreviation parse_dom where
  "parse_dom \<equiv> parse_expression_parse_prefix_expression_parse_grouped_expression_parse_infix_expression_parse_expression_loop_dom"

lemmas parse_pinduct =
  parse_expression_parse_prefix_expression_parse_grouped_expression_parse_infix_expression_parse_expression_loop.pinduct

definition parser_rest :: "Parser \<Rightarrow> nat" where
  "parser_rest p =
     3 * lexer_rest (p_lexer p) + (if p_next p = Eof then 0 else 2)
       + (if p_cur p = Eof then 0 else 1)"

lemma read_token_rest_le: "read_token p = Inr p' \<Longrightarrow> parser_rest p' \<le> parser_rest p"
  by (auto simp: read_token_def parser_rest_def split: sum.splits dest: next_token_rest)

lemma read_token_rest:
  "read_token p = Inr p' \<Longrightarrow> p_cur p \<noteq> Eof \<or> p_next p \<noteq> Eof \<Longrightarrow> parser_rest p' < parser_rest p"
  by (auto simp: read_token_def parser_rest_def split: sum.splits dest: next_token_rest)


definition rest_le :: "fault + ('a \<times> Parser) \<Rightarrow> Parser \<Rightarrow> bool" where
  "rest_le r p = (\<forall>e p'. r = Inr (e, p') \<longrightarrow> parser_rest p' \<le> parser_rest p)"

lemma rest_le_Inl: "rest_le (Inl f) p"
  by (simp add: rest_le_def)

lemma rest_le_Inr: "parser_rest p' \<le> parser_rest p \<Longrightarrow> rest_le (Inr (e, p')) p"
  by (simp add: rest_le_def)

lemma rest_le_bind:
  assumes "rest_le r p" and "\<And>x p1. r = Inr (x, p1) \<Longrightarrow> rest_le (k x p1) p1"
  shows "rest_le (case r of Inl f \<Rightarrow> Inl f | Inr (x, p1) \<Rightarrow> k x p1) p"
proof (cases r)
  case (Inl f)
  then show ?thesis by (simp add: rest_le_def)
next
  case (Inr xp)
  obtain x p1 where xp: "xp = (x, p1)" by (cases xp)
  from assms(1) Inr xp have a: "parser_rest p1 \<le> parser_rest p" by (simp add: rest_le_def)
  from assms(2) Inr xp have "rest_le (k x p1) p1" by simp
  with a Inr xp show ?thesis by (auto simp: rest_le_def)
qed

lemma rest_le_read_token:
  assumes "\<And>p1. read_token p = Inr p1 \<Longrightarrow> rest_le (k p1) p1"
  shows "rest_le (case read_token p of Inl f \<Rightarrow> Inl f | Inr p1 \<Rightarrow> k p1) p"
proof (cases "read_token p")
  case (Inl f)
  then show ?thesis by (simp add: rest_le_def)
next
  case (Inr p1)
  from read_token_rest_le [OF Inr] assms [OF Inr] Inr show ?thesis
    by (auto simp: rest_le_def)
qed

lemma rest_le_map:
  assumes "rest_le r p"
  shows "rest_le (case r of Inl f \<Rightarrow> Inl f | Inr (x, p1) \<Rightarrow> Inr (g x, p1)) p"
  using assms by (auto simp: rest_le_def split: sum.splits)

lemma parse_rest_le:
  "parse_dom (Inl (Inl (prec, p))) \<Longrightarrow> rest_le (parse_expression prec p) p"
  "parse_dom (Inl (Inr p)) \<Longrightarrow> rest_le (parse_prefix_expression p) p"
  "parse_dom (Inr (Inl p)) \<Longrightarrow> rest_le (parse_grouped_expression p) p"
  "parse_dom (Inr (Inr (Inl (left, p)))) \<Longrightarrow> rest_le (parse_infix_expression left p) p"
  "parse_dom (Inr (Inr (Inr (prec, left, p)))) \<Longrightarrow> rest_le (parse_expression_loop prec left p) p"
proof (induction prec p and p and p and left p and prec left p rule: parse_pinduct)
  case (1 prec p)
  show ?case
  proof (cases "p_cur p")
    case (Oper op)
    consider "op = Plus \<or> op = Minus" | "\<not> (op = Plus \<or> op = Minus)" "op = Lbrace"
      | "\<not> (op = Plus \<or> op = Minus)" "op \<noteq> Lbrace" by blast
    then show ?thesis
    proof cases
      case 1
      have "rest_le (case parse_prefix_expression p of Inl f \<Rightarrow> Inl f
                     | Inr (left, p1) \<Rightarrow> parse_expression_loop prec left p1) p"
        by (rule rest_le_bind) (use "1.IH" Oper 1 in auto)
      with Oper 1 "1.hyps" show ?thesis by (simp add: parse_expression.psimps)
    next
      case 2
      have "rest_le (case parse_grouped_expression p of Inl f \<Rightarrow> Inl f
                     | Inr (left, p1) \<Rightarrow> parse_expression_loop prec left p1) p"
        by (rule rest_le_bind) (use "1.IH" Oper 2 in auto)
      with Oper 2 "1.hyps" show ?thesis by (simp add: parse_expression.psimps)
    next
      case 3
      with Oper "1.hyps" show ?thesis by (simp add: parse_expression.psimps rest_le_Inr)
    qed
  next
    case (Num n)
    with "1.hyps" "1.IH"(5) show ?thesis by (simp add: parse_expression.psimps)
  next
    case Eof
    with "1.hyps" show ?thesis by (simp add: parse_expression.psimps rest_le_Inr)
  next
    case (Ident s)
    with "1.hyps" "1.IH"(6) show ?thesis by (simp add: parse_expression.psimps)
  next
    case Assign
    with "1.hyps" show ?thesis by (simp add: parse_expression.psimps rest_le_Inr)
  qed
next
  case (2 p)
  show ?case
  proof (cases "token_op (p_cur p)")
    case (Inl f)
    with "2.hyps" show ?thesis by (simp add: parse_prefix_expression.psimps rest_le_Inl)
  next
    case (Inr op)
    have "rest_le (case read_token p of Inl f \<Rightarrow> Inl f
           | Inr p1 \<Rightarrow>
               (if op = Plus then parse_expression PREFIX p1
                else if op = Minus then
                  (case parse_expression PREFIX p1 of
                     Inl f \<Rightarrow> Inl f
                   | Inr (child, p2) \<Rightarrow> Inr (NegativeExpression child, p2))
                else Inr (Nullptr, p1))) p"
      by (rule rest_le_read_token) (use "2.IH" Inr in \<open>auto intro: rest_le_map rest_le_Inr\<close>)
    with Inr "2.hyps" show ?thesis by (simp add: parse_prefix_expression.psimps)
  qed
next
  case (3 p)
  have "rest_le (case read_token p of
        Inl f \<Rightarrow> Inl f
      | Inr p1 \<Rightarrow>
          (case parse_expression LOWEST p1 of
             Inl f \<Rightarrow> Inl f
           | Inr (expr, p2) \<Rightarrow>
               (if token_type (p_next p2) \<noteq> TOper \<or> token_op (p_next p2) \<noteq> Inr Rbrace
                then Inr (Nullptr, p2)
                else (case read_token p2 of
                        Inl f \<Rightarrow> Inl f
                      | Inr p3 \<Rightarrow> Inr (expr, p3))))) p"
  proof (rule rest_le_read_token)
    fix p1 assume r: "read_token p = Inr p1"
    show "rest_le (case parse_expression LOWEST p1 of
             Inl f \<Rightarrow> Inl f
           | Inr (expr, p2) \<Rightarrow>
               (if token_type (p_next p2) \<noteq> TOper \<or> token_op (p_next p2) \<noteq> Inr Rbrace
                then Inr (Nullptr, p2)
                else (case read_token p2 of
                        Inl f \<Rightarrow> Inl f
                      | Inr p3 \<Rightarrow> Inr (expr, p3)))) p1"
    proof (rule rest_le_bind)
      show "rest_le (parse_expression LOWEST p1) p1" using "3.IH" r by simp
    next
      fix expr p2
      show "rest_le (if token_type (p_next p2) \<noteq> TOper \<or> token_op (p_next p2) \<noteq> Inr Rbrace
                then Inr (Nullptr, p2)
                else (case read_token p2 of
                        Inl f \<Rightarrow> Inl f
                      | Inr p3 \<Rightarrow> Inr (expr, p3))) p2"
        by (auto intro: rest_le_Inr rest_le_read_token)
    qed
  qed
  with "3.hyps" show ?case by (simp add: parse_grouped_expression.psimps)
next
  case (4 left p)
  show ?case
  proof (cases "token_op (p_cur p)")
    case (Inl f)
    with "4.hyps" show ?thesis by (simp add: parse_infix_expression.psimps rest_le_Inl)
  next
    case (Inr op)
    show ?thesis
    proof (cases "binary_op op")
      case None
      with Inr "4.hyps" show ?thesis by (simp add: parse_infix_expression.psimps rest_le_Inr)
    next
      case (Some bop)
      have "rest_le (case read_token p of
                  Inl f \<Rightarrow> Inl f
                | Inr p1 \<Rightarrow>
                    (case parse_expression (cur_precedence p) p1 of
                       Inl f \<Rightarrow> Inl f
                     | Inr (right, p2) \<Rightarrow> Inr (BinaryExpression bop left right, p2))) p"
        by (rule rest_le_read_token) (use "4.IH" Inr Some in \<open>auto intro: rest_le_map\<close>)
      with Inr Some "4.hyps" show ?thesis by (simp add: parse_infix_expression.psimps)
    qed
  qed
next
  case (5 prec left p)
  show ?case
  proof (cases "not_eof (p_next p) \<and> prec < next_precedence p")
    case False
    with "5.hyps" show ?thesis by (auto simp: parse_expression_loop.psimps rest_le_Inr)
  next
    case True
    have "rest_le (case read_token p of
           Inl f \<Rightarrow> Inl f
         | Inr p1 \<Rightarrow>
             (case token_op (p_cur p1) of
                Inl f \<Rightarrow> Inl f
              | Inr op \<Rightarrow>
                  (if binary_op op \<noteq> None then
                     (case parse_infix_expression left p1 of
                        Inl f \<Rightarrow> Inl f
                      | Inr (left', p2) \<Rightarrow> parse_expression_loop prec left' p2)
                   else Inr (Nullptr, p1)))) p"
    proof (rule rest_le_read_token)
      fix p1 assume r: "read_token p = Inr p1"
      show "rest_le (case token_op (p_cur p1) of
                Inl f \<Rightarrow> Inl f
              | Inr op \<Rightarrow>
                  (if binary_op op \<noteq> None then
                     (case parse_infix_expression left p1 of
                        Inl f \<Rightarrow> Inl f
                      | Inr (left', p2) \<Rightarrow> parse_expression_loop prec left' p2)
                   else Inr (Nullptr, p1))) p1"
      proof (cases "token_op (p_cur p1)")
        case (Inl f)
        then show ?thesis by (simp add: rest_le_Inl)
      next
        case (Inr op)
        show ?thesis
        proof (cases "binary_op op = None")
          case True
          with Inr show ?thesis by (simp add: rest_le_Inr)
        next
          case False
          have "rest_le (case parse_infix_expression left p1 of
                        Inl f \<Rightarrow> Inl f
                      | Inr (left', p2) \<Rightarrow> parse_expression_loop prec left' p2) p1"
            by (rule rest_le_bind) (use "5.IH" True r Inr False in auto)
          with Inr False show ?thesis by simp
        qed
      qed
    qed
    with True "5.hyps" show ?thesis by (simp add: parse_expression_loop.psimps)
  qed
qed

definition parse_measure ::
  "(nat \<times> Parser + Parser) + Parser + Expression \<times> Parser + nat \<times> Expression \<times> Parser \<Rightarrow> nat" where
  "parse_measure c =
     (case c of
        Inl (Inl (prec, p)) \<Rightarrow> (if p_cur p = Eof then 0 else 4 * parser_rest p + 2)
      | Inl (Inr p) \<Rightarrow> 4 * parser_rest p + 1
      | Inr (Inl p) \<Rightarrow> 4 * parser_rest p + 1
      | Inr (Inr (Inl (left, p))) \<Rightarrow> 4 * parser_rest p + 3
      | Inr (Inr (Inr (prec, left, p))) \<Rightarrow> 4 * parser_rest p + 1)"

termination parse_expression
proof (relation "measure parse_measure", goal_cases)
  case 1
  show ?case by simp
next
  case (2 prec p op)
  then show ?case by (auto simp: parse_measure_def)
next
  case (3 prec p op b x y)
  then have "parse_dom (Inl (Inr p))" by simp
  then have "rest_le (parse_prefix_expression p) p" by (rule parse_rest_le)
  with 3 have "parser_rest y \<le> parser_rest p" by (auto simp: rest_le_def)
  with 3 show ?case by (auto simp: parse_measure_def)
next
  case (4 prec p op)
  then show ?case by (auto simp: parse_measure_def)
next
  case (5 prec p op b x y)
  then have "parse_dom (Inr (Inl p))" by simp
  then have "rest_le (parse_grouped_expression p) p" by (rule parse_rest_le)
  with 5 have "parser_rest y \<le> parser_rest p" by (auto simp: rest_le_def)
  with 5 show ?case by (auto simp: parse_measure_def)
next
  case (6 prec p n)
  then show ?case by (auto simp: parse_measure_def)
next
  case (7 prec p s)
  then show ?case by (auto simp: parse_measure_def)
next
  case (8 p op p1)
  then have "p_cur p \<noteq> Eof" by auto
  from read_token_rest [OF 8(2)] this have "parser_rest p1 < parser_rest p" by simp
  then show ?case by (auto simp: parse_measure_def)
next
  case (9 p op p1)
  then have "p_cur p \<noteq> Eof" by auto
  from read_token_rest [OF 9(2)] this have "parser_rest p1 < parser_rest p" by simp
  then show ?case by (auto simp: parse_measure_def)
next
  case (10 p p1)
  show ?case
  proof (cases "p_cur p \<noteq> Eof \<or> p_next p \<noteq> Eof")
    case True
    from read_token_rest [OF 10 True] show ?thesis by (auto simp: parse_measure_def)
  next
    case False
    with 10 have "p_cur p1 = Eof" by (auto simp: read_token_def split: sum.splits)
    then show ?thesis by (auto simp: parse_measure_def)
  qed
next
  case (11 left p op bop p1)
  then have "p_cur p \<noteq> Eof" by auto
  from read_token_rest [OF 11(3)] this have "parser_rest p1 < parser_rest p" by simp
  then show ?case by (auto simp: parse_measure_def)
next
  case (12 prec left p p1 op)
  then have "p_next p \<noteq> Eof" by (auto simp: not_eof_def)
  with read_token_rest [OF 12(2)] have "parser_rest p1 < parser_rest p" by simp
  then show ?case by (auto simp: parse_measure_def)
next
  case (13 prec left p p1 op b x y)
  then have "p_next p \<noteq> Eof" by (auto simp: not_eof_def)
  with read_token_rest [OF 13(2)] have a: "parser_rest p1 < parser_rest p" by simp
  from 13 have "parse_dom (Inr (Inr (Inl (left, p1))))" by simp
  then have "rest_le (parse_infix_expression left p1) p1" by (rule parse_rest_le)
  with 13 have "parser_rest y \<le> parser_rest p1" by (auto simp: rest_le_def)
  with a show ?case by (auto simp: parse_measure_def)
qed


declare parse_expression.simps [simp del] parse_prefix_expression.simps [simp del]
  parse_grouped_expression.simps [simp del] parse_infix_expression.simps [simp del]
  parse_expression_loop.simps [simp del]

text \<open>\<^verbatim>\<open>Parser::parse_statment\<close>. The name of an assignment is read with
  \<^verbatim>\<open>this->cur.ident\<close>, whatever the tag of \<^verbatim>\<open>cur\<close> is.\<close>

definition parse_statment :: "Parser \<Rightarrow> fault + (Statement \<times> Parser)" where
  "parse_statment p =
     (if token_type (p_next p) = TAssign then
        (case token_ident (p_cur p) of
           Inl f \<Rightarrow> Inl f
         | Inr ident \<Rightarrow>
             (case read_token p of
                Inl f \<Rightarrow> Inl f
              | Inr p1 \<Rightarrow>
                  (case read_token p1 of
                     Inl f \<Rightarrow> Inl f
                   | Inr p2 \<Rightarrow>
                       (case parse_expression LOWEST p2 of
                          Inl f \<Rightarrow> Inl f
                        | Inr (expr, p3) \<Rightarrow> Inr (Assignment ident expr, p3)))))
      else
        (case parse_expression LOWEST p of
           Inl f \<Rightarrow> Inl f
         | Inr (expr, p1) \<Rightarrow> Inr (ExpressionStmt expr, p1)))"

text \<open>\<^verbatim>\<open>Parser(line).parse_statment()\<close>, as \<^verbatim>\<open>Repl::loop\<close> calls it.\<close>

definition parse_line :: "string \<Rightarrow> fault + (Statement \<times> Parser)" where
  "parse_line line =
     (case new_Parser line of Inl f \<Rightarrow> Inl f | Inr p \<Rightarrow> parse_statment p)"


section \<open>Evaluator\<close>

text \<open>
  \<^verbatim>\<open>Context\<close> is \<^verbatim>\<open>std::unordered_map<string, int>\<close>. An evaluation returns the value or
  the fault, and the context as it is at that moment: \<^verbatim>\<open>ctx[name]\<close> inserts a missing
  name, so reading changes it.

  C++ does not fix which operand of \<^verbatim>\<open>eval_expression(left) + eval_expression(right)\<close>
  is evaluated first. The order is a parameter of the model, one choice for each of the
  five operators (\<open>True\<close>: the left operand first), and the theorems hold for every order.
\<close>

type_synonym Context = "string \<rightharpoonup> int"

type_synonym operand_order = "BinaryOp \<Rightarrow> bool"

definition set_var :: "string \<Rightarrow> int \<Rightarrow> Context \<Rightarrow> Context" where
  "set_var ident v ctx = ctx(ident \<mapsto> v)"

definition clear_vars :: "Context \<Rightarrow> Context" where
  "clear_vars ctx = Map.empty"

definition left_first :: operand_order where
  "left_first op = True"

definition right_first :: operand_order where
  "right_first op = False"

fun binary_result :: "BinaryOp \<Rightarrow> int \<Rightarrow> int \<Rightarrow> fault + int" where
  "binary_result Add a b = Inr (int_add a b)"
| "binary_result Sub a b = Inr (int_sub a b)"
| "binary_result Prod a b = Inr (int_mul a b)"
| "binary_result Div a b = int_div a b"
| "binary_result Mod a b = int_mod a b"

fun eval_identifier :: "Expression \<Rightarrow> Context \<Rightarrow> (fault + int) \<times> Context" where
  "eval_identifier (Identifier name) ctx =
     (case ctx name of
        Some v \<Rightarrow> (Inr v, ctx)
      | None \<Rightarrow> (Inr 0, ctx(name \<mapsto> 0)))"
| "eval_identifier Nullptr ctx = (Inl UB_null_dereference, ctx)"
| "eval_identifier _ ctx = (Inl UB_inactive_union_member, ctx)"

fun eval_literal :: "Expression \<Rightarrow> Context \<Rightarrow> (fault + int) \<times> Context" where
  "eval_literal (Literal n) ctx = (Inr n, ctx)"
| "eval_literal Nullptr ctx = (Inl UB_null_dereference, ctx)"
| "eval_literal _ ctx = (Inl UB_inactive_union_member, ctx)"

fun eval_expression :: "operand_order \<Rightarrow> Expression \<Rightarrow> Context \<Rightarrow> (fault + int) \<times> Context"
  and eval_binary :: "operand_order \<Rightarrow> Expression \<Rightarrow> Context \<Rightarrow> (fault + int) \<times> Context"
  and eval_negative :: "operand_order \<Rightarrow> Expression \<Rightarrow> Context \<Rightarrow> (fault + int) \<times> Context"
where
  "eval_expression ord Nullptr ctx = (Inl UB_null_dereference, ctx)"
| "eval_expression ord (BinaryExpression op left right) ctx =
     eval_binary ord (BinaryExpression op left right) ctx"
| "eval_expression ord (Identifier name) ctx = eval_identifier (Identifier name) ctx"
| "eval_expression ord (Literal n) ctx = eval_literal (Literal n) ctx"
| "eval_expression ord (NegativeExpression child) ctx =
     eval_negative ord (NegativeExpression child) ctx"
| "eval_binary ord (BinaryExpression op left right) ctx =
     (if ord op then
        (case eval_expression ord left ctx of
           (Inl f, c1) \<Rightarrow> (Inl f, c1)
         | (Inr a, c1) \<Rightarrow>
             (case eval_expression ord right c1 of
                (Inl f, c2) \<Rightarrow> (Inl f, c2)
              | (Inr b, c2) \<Rightarrow> (binary_result op a b, c2)))
      else
        (case eval_expression ord right ctx of
           (Inl f, c1) \<Rightarrow> (Inl f, c1)
         | (Inr b, c1) \<Rightarrow>
             (case eval_expression ord left c1 of
                (Inl f, c2) \<Rightarrow> (Inl f, c2)
              | (Inr a, c2) \<Rightarrow> (binary_result op a b, c2))))"
| "eval_binary ord Nullptr ctx = (Inl UB_null_dereference, ctx)"
| "eval_binary ord (Literal n) ctx = (Inl UB_inactive_union_member, ctx)"
| "eval_binary ord (Identifier name) ctx = (Inl UB_inactive_union_member, ctx)"
| "eval_binary ord (NegativeExpression child) ctx = (Inl UB_inactive_union_member, ctx)"
| "eval_negative ord (NegativeExpression child) ctx =
     (case eval_expression ord child ctx of
        (Inl f, c1) \<Rightarrow> (Inl f, c1)
      | (Inr v, c1) \<Rightarrow> (Inr (int_neg v), c1))"
| "eval_negative ord Nullptr ctx = (Inl UB_null_dereference, ctx)"
| "eval_negative ord (Literal n) ctx = (Inl UB_inactive_union_member, ctx)"
| "eval_negative ord (Identifier name) ctx = (Inl UB_inactive_union_member, ctx)"
| "eval_negative ord (BinaryExpression op left right) ctx = (Inl UB_inactive_union_member, ctx)"

fun eval_statment :: "operand_order \<Rightarrow> Statement \<Rightarrow> Context \<Rightarrow> (fault + int) \<times> Context" where
  "eval_statment ord (Assignment ident expr) ctx =
     (case eval_expression ord expr ctx of
        (Inl f, c1) \<Rightarrow> (Inl f, c1)
      | (Inr v, c1) \<Rightarrow> (Inr v, set_var ident v c1))"
| "eval_statment ord (ExpressionStmt expr) ctx = eval_expression ord expr ctx"

text \<open>The last branch of the loop body of \<^verbatim>\<open>Repl::loop\<close>, for a line that is none of
  \<^verbatim>\<open>exit\<close>, \<^verbatim>\<open>clear\<close>, \<^verbatim>\<open>vars\<close>: the line is parsed and the statement evaluated, with
  no check in between.\<close>

definition repl_statement :: "operand_order \<Rightarrow> string \<Rightarrow> Context \<Rightarrow> (fault + int) \<times> Context" where
  "repl_statement ord line ctx =
     (case parse_line line of
        Inl f \<Rightarrow> (Inl f, ctx)
      | Inr (stmt, parser) \<Rightarrow> eval_statment ord stmt ctx)"


section \<open>Notions used in the properties\<close>

text \<open>The (n+1)-th of consecutive calls of \<open>next_token\<close>, each on the lexer the call
  before left.\<close>

fun next_token_n :: "nat \<Rightarrow> Lexer \<Rightarrow> fault + (Token \<times> Lexer)" where
  "next_token_n 0 l = next_token l"
| "next_token_n (Suc n) l =
     (case next_token l of Inl f \<Rightarrow> Inl f | Inr (t, l') \<Rightarrow> next_token_n n l')"

text \<open>A character that no case of \<open>next_token\<close> handles: no operator, not \<^verbatim>\<open>=\<close>, not the
  terminator, no digit and no letter.\<close>

definition unrecognized :: "char \<Rightarrow> bool" where
  "unrecognized c =
     (op_of_char c = None \<and> c \<noteq> CHR ''='' \<and> c \<noteq> NUL \<and> \<not> is_digit c \<and> \<not> is_letter c)"

text \<open>The lexer after it has read all of its input.\<close>

definition lexer_done :: "string \<Rightarrow> Lexer" where
  "lexer_done inp = \<lparr>l_input = inp, l_cur = length inp, l_next = length inp + 1, l_ch = NUL\<rparr>"

text \<open>The tokens on which \<open>parse_expression\<close> goes on to parse a prefix term.\<close>

fun starts_prefix_term :: "Token \<Rightarrow> bool" where
  "starts_prefix_term (Oper op) = (op = Plus \<or> op = Minus \<or> op = Lbrace)"
| "starts_prefix_term (Ident s) = True"
| "starts_prefix_term (Num n) = True"
| "starts_prefix_term Eof = False"
| "starts_prefix_term Assign = False"

text \<open>A tree that is the null pointer or has a null pointer somewhere inside.\<close>

fun has_null :: "Expression \<Rightarrow> bool" where
  "has_null Nullptr = True"
| "has_null (Literal n) = False"
| "has_null (Identifier s) = False"
| "has_null (BinaryExpression op left right) = (has_null left \<or> has_null right)"
| "has_null (NegativeExpression child) = has_null child"



section \<open>Parses of the example lines\<close>

text \<open>The statement and the final parser for the lines that the properties below use,
  and a few single steps of the parser, all computed from the definitions.\<close>

lemma parse_line_y_plus_1:
  "parse_line ''y+1'' =
     Inr (ExpressionStmt (BinaryExpression Add (Identifier ''y'') (Literal 1)),
          \<lparr>p_lexer = lexer_done ''y+1'', p_cur = Num 1, p_next = Eof\<rparr>)"
  by code_simp

lemma parse_line_x_assign_5:
  "parse_line ''x = 5'' =
     Inr (Assignment ''x'' (Literal 5),
          \<lparr>p_lexer = lexer_done ''x = 5'', p_cur = Num 5, p_next = Eof\<rparr>)"
  by code_simp

lemma parse_line_x_plus_1:
  "parse_line ''x+1'' =
     Inr (ExpressionStmt (BinaryExpression Add (Identifier ''x'') (Literal 1)),
          \<lparr>p_lexer = lexer_done ''x+1'', p_cur = Num 1, p_next = Eof\<rparr>)"
  by code_simp

lemma parse_line_div_zero:
  "parse_line ''5/0'' =
     Inr (ExpressionStmt (BinaryExpression Div (Literal 5) (Literal 0)),
          \<lparr>p_lexer = lexer_done ''5/0'', p_cur = Num 0, p_next = Eof\<rparr>)"
  by code_simp

lemma parse_line_mod_zero:
  "parse_line ''5%0'' =
     Inr (ExpressionStmt (BinaryExpression Mod (Literal 5) (Literal 0)),
          \<lparr>p_lexer = lexer_done ''5%0'', p_cur = Num 0, p_next = Eof\<rparr>)"
  by code_simp





lemma parse_line_neg_5_plus_2:
  "parse_line ''-5+2'' =
     Inr (ExpressionStmt (BinaryExpression Add (NegativeExpression (Literal 5)) (Literal 2)),
          \<lparr>p_lexer = lexer_done ''-5+2'', p_cur = Num 2, p_next = Eof\<rparr>)"
  by code_simp

lemma parse_line_plus_5:
  "parse_line ''+5'' =
     Inr (ExpressionStmt (Literal 5),
          \<lparr>p_lexer = lexer_done ''+5'', p_cur = Num 5, p_next = Eof\<rparr>)"
  by code_simp

lemma parse_line_neg_neg_5:
  "parse_line ''--5'' =
     Inr (ExpressionStmt (NegativeExpression (NegativeExpression (Literal 5))),
          \<lparr>p_lexer = lexer_done ''--5'', p_cur = Num 5, p_next = Eof\<rparr>)"
  by code_simp

lemma parse_line_times_5:
  "parse_line ''*5'' =
     Inr (ExpressionStmt Nullptr,
          \<lparr>p_lexer = lexer_done ''*5'', p_cur = Oper Asterisk, p_next = Num 5\<rparr>)"
  by code_simp

lemma parse_line_1_plus:
  "parse_line ''1+'' =
     Inr (ExpressionStmt (BinaryExpression Add (Literal 1) Nullptr),
          \<lparr>p_lexer = lexer_done ''1+'', p_cur = Eof, p_next = Eof\<rparr>)"
  by code_simp

lemma parse_line_open_1_plus_2:
  "parse_line ''(1+2'' =
     Inr (ExpressionStmt Nullptr,
          \<lparr>p_lexer = lexer_done ''(1+2'', p_cur = Num 2, p_next = Eof\<rparr>)"
  by code_simp

lemma parse_line_neg_times_5:
  "parse_line ''-*5'' =
     Inr (ExpressionStmt (NegativeExpression Nullptr),
          \<lparr>p_lexer = lexer_done ''-*5'', p_cur = Oper Asterisk, p_next = Num 5\<rparr>)"
  by code_simp

lemma parse_line_1_plus_open_2:
  "parse_line ''1+(2'' =
     Inr (ExpressionStmt (BinaryExpression Add (Literal 1) Nullptr),
          \<lparr>p_lexer = lexer_done ''1+(2'', p_cur = Num 2, p_next = Eof\<rparr>)"
  by code_simp

lemma parse_line_1_plus_2_times:
  "parse_line ''1+2*'' =
     Inr (ExpressionStmt
            (BinaryExpression Add (Literal 1) (BinaryExpression Prod (Literal 2) Nullptr)),
          \<lparr>p_lexer = lexer_done ''1+2*'', p_cur = Eof, p_next = Eof\<rparr>)"
  by code_simp

lemma parse_expression_loop_null_left:
  "parse_expression_loop LOWEST Nullptr
       \<lparr>p_lexer = \<lparr>l_input = ''(*+3'', l_cur = 3, l_next = 4, l_ch = CHR ''3''\<rparr>,
        p_cur = Oper Asterisk, p_next = Oper Plus\<rparr>
     = Inr (BinaryExpression Add Nullptr (Literal 3),
            \<lparr>p_lexer = lexer_done ''(*+3'', p_cur = Num 3, p_next = Eof\<rparr>)"
  by code_simp

lemma parse_line_least_int:
  "parse_line ''0-2147483647-1'' =
     Inr (ExpressionStmt
            (BinaryExpression Sub (BinaryExpression Sub (Literal 0) (Literal 2147483647))
               (Literal 1)),
          \<lparr>p_lexer = lexer_done ''0-2147483647-1'', p_cur = Num 1, p_next = Eof\<rparr>)"
  by code_simp

lemma parse_line_neg_least_int:
  "parse_line ''-(0-2147483647-1)'' =
     Inr (ExpressionStmt
            (NegativeExpression
               (BinaryExpression Sub (BinaryExpression Sub (Literal 0) (Literal 2147483647))
                  (Literal 1))),
          \<lparr>p_lexer = lexer_done ''-(0-2147483647-1)'', p_cur = Oper Rbrace, p_next = Eof\<rparr>)"
  by code_simp




lemma new_Parser_5_assign_3:
  "new_Parser ''5 = 3'' =
     Inr \<lparr>p_lexer = \<lparr>l_input = ''5 = 3'', l_cur = 3, l_next = 4, l_ch = CHR '' ''\<rparr>,
          p_cur = Num 5, p_next = Assign\<rparr>"
  by code_simp

lemma new_Parser_x_assign_5:
  "new_Parser ''x = 5'' =
     Inr \<lparr>p_lexer = \<lparr>l_input = ''x = 5'', l_cur = 3, l_next = 4, l_ch = CHR '' ''\<rparr>,
          p_cur = Ident ''x'', p_next = Assign\<rparr>"
  by code_simp

lemma read_token_x_assign_5:
  "read_token \<lparr>p_lexer = \<lparr>l_input = ''x = 5'', l_cur = 3, l_next = 4, l_ch = CHR '' ''\<rparr>,
               p_cur = Ident ''x'', p_next = Assign\<rparr>
     = Inr \<lparr>p_lexer = lexer_done ''x = 5'', p_cur = Assign, p_next = Num 5\<rparr>"
  "read_token \<lparr>p_lexer = lexer_done ''x = 5'', p_cur = Assign, p_next = Num 5\<rparr>
     = Inr \<lparr>p_lexer = lexer_done ''x = 5'', p_cur = Num 5, p_next = Eof\<rparr>"
  "parse_expression LOWEST \<lparr>p_lexer = lexer_done ''x = 5'', p_cur = Num 5, p_next = Eof\<rparr>
     = Inr (Literal 5, \<lparr>p_lexer = lexer_done ''x = 5'', p_cur = Num 5, p_next = Eof\<rparr>)"
  by code_simp+

lemma read_token_at_end:
  "read_token \<lparr>p_lexer = lexer_done inp, p_cur = c, p_next = n\<rparr>
     = Inr \<lparr>p_lexer = lexer_done inp, p_cur = n, p_next = Eof\<rparr>"
  by (simp add: read_token_def next_token_def lexer_done_def skipspace.simps NUL_def
        op_of_char_def)

lemma parse_expression_last_token:
  "parse_expression prec \<lparr>p_lexer = l, p_cur = Num n, p_next = Eof\<rparr>
     = Inr (Literal n, \<lparr>p_lexer = l, p_cur = Num n, p_next = Eof\<rparr>)"
  "parse_expression prec \<lparr>p_lexer = l, p_cur = Ident s, p_next = Eof\<rparr>
     = Inr (Identifier s, \<lparr>p_lexer = l, p_cur = Ident s, p_next = Eof\<rparr>)"
  by (simp_all add: parse_expression.simps parse_expression_loop.simps not_eof_def)



lemmas int_arith_defs =
  int_add_def int_sub_def int_mul_def int_neg_def int_div_def int_mod_def wrap_int_def
  in_int_range_def INT_MIN_def INT_MAX_def trunc_div_def trunc_mod_def

section \<open>The lexer at the end of the input\<close>

lemma NUL_class:
  "op_of_char NUL = None" "NUL \<noteq> CHR ''=''" "\<not> is_digit NUL" "\<not> is_letter NUL"
  by (simp_all add: op_of_char_def NUL_def is_digit_def is_letter_def)

lemma skipspace_ch: "l_ch (skipspace l) \<noteq> CHR '' ''"
  by (induction l rule: skipspace.induct) (simp add: skipspace.simps)

lemma skipspace_fixed: "l_ch l \<noteq> CHR '' '' \<Longrightarrow> skipspace l = l"
  by (simp add: skipspace.simps)

lemma skipspace_idem: "skipspace (skipspace l) = skipspace l"
  by (simp add: skipspace_fixed skipspace_ch)

lemma next_token_Eof_iff:
  "next_token l = Inr (Eof, l') \<longleftrightarrow>
     l' = skipspace l \<and> (l_ch (skipspace l) = NUL \<or> unrecognized (l_ch (skipspace l)))"
  by (auto simp: next_token_def Let_def unrecognized_def NUL_class
           split: option.splits sum.splits prod.splits)

lemma next_token_n_Eof:
  "next_token l = Inr (Eof, l) \<Longrightarrow> next_token_n n l = Inr (Eof, l)"
  by (induction n) simp_all

text \<open>
  C8. \<open>read_char\<close> sets the current character to the terminator once the position is
  past the end of the input. When, after the spaces are skipped, the current character
  is the terminator or a character that no case handles, \<open>next_token\<close> returns \<open>Eof\<close>
  (a value, not a fault) and leaves the lexer where the spaces end. From a lexer that a
  call returning \<open>Eof\<close> has left, every further call returns \<open>Eof\<close> and leaves the lexer
  as it is.
\<close>

theorem next_token_eof_idempotent:
  "(length (l_input l) \<le> l_next l \<longrightarrow> l_ch (read_char l) = NUL)
   \<and> (l_ch (skipspace l) = NUL \<or> unrecognized (l_ch (skipspace l)) \<longrightarrow>
        next_token l = Inr (Eof, skipspace l))
   \<and> (next_token l = Inr (Eof, l') \<longrightarrow> next_token_n n l' = Inr (Eof, l'))"
proof (intro conjI impI)
  show "l_ch (read_char l) = NUL" if "length (l_input l) \<le> l_next l"
    using that by (simp add: read_char_def)
  show "next_token l = Inr (Eof, skipspace l)"
    if "l_ch (skipspace l) = NUL \<or> unrecognized (l_ch (skipspace l))"
    using that by (simp add: next_token_Eof_iff)
  show "next_token_n n l' = Inr (Eof, l')" if "next_token l = Inr (Eof, l')"
  proof -
    from that have "l' = skipspace l"
      and "l_ch (skipspace l) = NUL \<or> unrecognized (l_ch (skipspace l))"
      by (simp_all add: next_token_Eof_iff)
    then have "next_token l' = Inr (Eof, l')"
      by (simp add: next_token_Eof_iff skipspace_idem)
    then show ?thesis by (rule next_token_n_Eof)
  qed
qed

theorem next_token_eof_idempotent_witness:
  "length (l_input (lexer_done ''1+2'')) \<le> l_next (lexer_done ''1+2'')
   \<and> l_ch (read_char (lexer_done ''1+2'')) = NUL
   \<and> l_ch (skipspace (lexer_done ''1+2'')) = NUL
   \<and> next_token (lexer_done ''1+2'') = Inr (Eof, lexer_done ''1+2'')
   \<and> next_token_n 2 (lexer_done ''1+2'') = Inr (Eof, lexer_done ''1+2'')
   \<and> unrecognized (l_ch (skipspace (new_Lexer ''$ 2'')))
   \<and> next_token (new_Lexer ''$ 2'') = Inr (Eof, new_Lexer ''$ 2'')
   \<and> next_token_n 2 (new_Lexer ''$ 2'') = Inr (Eof, new_Lexer ''$ 2'')"
  using next_token_eof_idempotent [of "lexer_done ''1+2''" "lexer_done ''1+2''" 2]
        next_token_eof_idempotent [of "new_Lexer ''$ 2''" "new_Lexer ''$ 2''" 2]
  by (simp add: lexer_done_def new_Lexer_def read_char_def skipspace.simps unrecognized_def
        op_of_char_def is_digit_def is_letter_def NUL_def)

section \<open>Precedence and associativity\<close>



section \<open>Reading an unknown identifier\<close>

text \<open>
  C3. Evaluating an \<open>Identifier\<close> node whose name the environment does not bind returns
  0 and leaves the environment with that name bound to 0. The line \<^verbatim>\<open>y+1\<close> in the
  empty environment returns 1, and afterwards the environment binds \<^verbatim>\<open>y\<close> to 0 and
  nothing else.
\<close>

theorem eval_identifier_absent:
  "(ctx name = None \<longrightarrow>
      eval_expression ord (Identifier name) ctx = (Inr 0, ctx(name \<mapsto> 0)))
   \<and> repl_statement ord ''y+1'' Map.empty = (Inr 1, [''y'' \<mapsto> 0])"
  by (simp add: repl_statement_def parse_line_y_plus_1 int_arith_defs)

theorem eval_identifier_absent_witness:
  "(Map.empty :: Context) ''y'' = None
   \<and> eval_expression left_first (Identifier ''y'') Map.empty = (Inr 0, [''y'' \<mapsto> 0])"
  using eval_identifier_absent [of Map.empty "''y''" left_first] by simp

section \<open>Assignment\<close>

text \<open>
  C4. An assignment statement evaluates its right-hand side first; when that returns a
  value, the value is stored under the name in the environment the evaluation left,
  replacing any earlier binding, and is the result of the statement. When the right-hand
  side faults, nothing is stored. The line \<^verbatim>\<open>x = 5\<close> returns 5 and binds \<^verbatim>\<open>x\<close> to 5,
  also where \<^verbatim>\<open>x\<close> was bound before, and \<^verbatim>\<open>x+1\<close> then returns 6.
\<close>

theorem eval_statment_assignment:
  "(eval_expression ord expr ctx = (Inr v, ctx') \<longrightarrow>
      eval_statment ord (Assignment name expr) ctx = (Inr v, ctx'(name \<mapsto> v)))
   \<and> (eval_expression ord expr ctx = (Inl f, ctx') \<longrightarrow>
      eval_statment ord (Assignment name expr) ctx = (Inl f, ctx'))
   \<and> repl_statement ord ''x = 5'' Map.empty = (Inr 5, [''x'' \<mapsto> 5])
   \<and> repl_statement ord ''x = 5'' [''x'' \<mapsto> 1] = (Inr 5, [''x'' \<mapsto> 5])
   \<and> repl_statement ord ''x+1'' [''x'' \<mapsto> 5] = (Inr 6, [''x'' \<mapsto> 5])"
  by (simp add: repl_statement_def parse_line_x_assign_5 parse_line_x_plus_1 set_var_def
        int_arith_defs)

theorem eval_statment_assignment_witness:
  "eval_expression left_first (Literal 5) [''x'' \<mapsto> 1] = (Inr 5, [''x'' \<mapsto> 1])
   \<and> eval_statment left_first (Assignment ''x'' (Literal 5)) [''x'' \<mapsto> 1]
       = (Inr 5, [''x'' \<mapsto> 5])
   \<and> eval_expression left_first Nullptr Map.empty = (Inl UB_null_dereference, Map.empty)
   \<and> eval_statment left_first (Assignment ''x'' Nullptr) Map.empty
       = (Inl UB_null_dereference, Map.empty)"
  using eval_statment_assignment
          [where ord = left_first and expr = "Literal 5" and ctx = "[''x'' \<mapsto> 1]"
             and v = 5 and ctx' = "[''x'' \<mapsto> 1]" and name = "''x''"]
        eval_statment_assignment
          [where ord = left_first and expr = Nullptr and ctx = Map.empty
             and f = UB_null_dereference and ctx' = Map.empty and name = "''x''"]
  by simp

section \<open>Unary operators\<close>

text \<open>
  C9, as the specification states it, fails: the line \<^verbatim>\<open>0-2147483647-1\<close> evaluates to the
  least \<^verbatim>\<open>int\<close>, and its negation \<^verbatim>\<open>-(0-2147483647-1)\<close> evaluates to the same value, which
  is not the arithmetic negation.
\<close>

theorem negation_of_least_int:
  "repl_statement left_first ''0-2147483647-1'' Map.empty = (Inr (- 2147483648), Map.empty)
   \<and> repl_statement left_first ''-(0-2147483647-1)'' Map.empty
       = (Inr (- 2147483648), Map.empty)
   \<and> - (- 2147483648) \<noteq> (- 2147483648 :: int)"
  by (simp add: repl_statement_def parse_line_least_int parse_line_neg_least_int
        int_sub_def int_neg_def wrap_int_def)

text \<open>
  C9, amended. On a prefix \<^verbatim>\<open>+\<close>, \<open>parse_prefix_expression\<close> returns what
  \<open>parse_expression\<close> returns for the operand, unchanged; on a prefix \<^verbatim>\<open>-\<close> it wraps the
  operand in a \<open>NegativeExpression\<close>. A \<open>NegativeExpression\<close> whose operand evaluates to
  \<open>v\<close> evaluates, in the environment the operand left, to \<open>- v\<close> reduced to 32-bit two's
  complement: that is \<open>- v\<close> whenever \<open>- v\<close> is an \<^verbatim>\<open>int\<close>, and it is the least \<^verbatim>\<open>int\<close>
  again when \<open>v\<close> is the least \<^verbatim>\<open>int\<close>. The line \<^verbatim>\<open>-5+2\<close> evaluates to -3 and \<^verbatim>\<open>+5\<close> to 5;
  the parser accepts \<^verbatim>\<open>--5\<close> as a negation of a negation, and it evaluates to 5.
\<close>

theorem unary_prefix_operators:
  "(p_cur p = Oper Plus \<and> read_token p = Inr p1 \<longrightarrow>
      parse_prefix_expression p = parse_expression PREFIX p1)
   \<and> (p_cur p = Oper Minus \<and> read_token p = Inr p1
        \<and> parse_expression PREFIX p1 = Inr (child, p2) \<longrightarrow>
      parse_prefix_expression p = Inr (NegativeExpression child, p2))
   \<and> (eval_expression ord child ctx = (Inr v, ctx') \<longrightarrow>
      eval_expression ord (NegativeExpression child) ctx = (Inr (wrap_int (- v)), ctx'))
   \<and> (in_int_range (- v) \<longrightarrow> wrap_int (- v) = - v)
   \<and> wrap_int (- INT_MIN) = INT_MIN
   \<and> repl_statement ord ''-5+2'' ctx = (Inr (- 3), ctx)
   \<and> repl_statement ord ''+5'' ctx = (Inr 5, ctx)
   \<and> map_sum id fst (parse_line ''--5'')
        = Inr (ExpressionStmt (NegativeExpression (NegativeExpression (Literal 5))))
   \<and> repl_statement ord ''--5'' ctx = (Inr 5, ctx)"
proof (intro conjI impI)
  show "parse_prefix_expression p = parse_expression PREFIX p1"
    if "p_cur p = Oper Plus \<and> read_token p = Inr p1"
    using that by (simp add: parse_prefix_expression.simps)
  show "parse_prefix_expression p = Inr (NegativeExpression child, p2)"
    if "p_cur p = Oper Minus \<and> read_token p = Inr p1
        \<and> parse_expression PREFIX p1 = Inr (child, p2)"
    using that by (simp add: parse_prefix_expression.simps)
  show "eval_expression ord (NegativeExpression child) ctx = (Inr (wrap_int (- v)), ctx')"
    if "eval_expression ord child ctx = (Inr v, ctx')"
    using that by (simp add: int_neg_def)
  show "wrap_int (- v) = - v" if "in_int_range (- v)"
    using that by (simp add: wrap_int_def in_int_range_def INT_MIN_def INT_MAX_def)
  show "wrap_int (- INT_MIN) = INT_MIN"
    by (simp add: wrap_int_def INT_MIN_def)
  show "repl_statement ord ''-5+2'' ctx = (Inr (- 3), ctx)"
    by (simp add: repl_statement_def parse_line_neg_5_plus_2 int_neg_def int_add_def
          wrap_int_def)
  show "repl_statement ord ''+5'' ctx = (Inr 5, ctx)"
    by (simp add: repl_statement_def parse_line_plus_5)
  show "map_sum id fst (parse_line ''--5'')
          = Inr (ExpressionStmt (NegativeExpression (NegativeExpression (Literal 5))))"
    by (simp add: parse_line_neg_neg_5)
  show "repl_statement ord ''--5'' ctx = (Inr 5, ctx)"
    by (simp add: repl_statement_def parse_line_neg_neg_5 int_neg_def wrap_int_def)
qed

theorem unary_prefix_operators_witness:
  "read_token \<lparr>p_lexer = lexer_done ''+5'', p_cur = Oper Plus, p_next = Num 5\<rparr>
     = Inr \<lparr>p_lexer = lexer_done ''+5'', p_cur = Num 5, p_next = Eof\<rparr>
   \<and> parse_prefix_expression \<lparr>p_lexer = lexer_done ''+5'', p_cur = Oper Plus, p_next = Num 5\<rparr>
     = Inr (Literal 5, \<lparr>p_lexer = lexer_done ''+5'', p_cur = Num 5, p_next = Eof\<rparr>)
   \<and> read_token \<lparr>p_lexer = lexer_done ''-5'', p_cur = Oper Minus, p_next = Num 5\<rparr>
     = Inr \<lparr>p_lexer = lexer_done ''-5'', p_cur = Num 5, p_next = Eof\<rparr>
   \<and> parse_prefix_expression \<lparr>p_lexer = lexer_done ''-5'', p_cur = Oper Minus, p_next = Num 5\<rparr>
     = Inr (NegativeExpression (Literal 5),
            \<lparr>p_lexer = lexer_done ''-5'', p_cur = Num 5, p_next = Eof\<rparr>)
   \<and> eval_expression left_first (Literal 5) Map.empty = (Inr 5, Map.empty)
   \<and> in_int_range (- 5)
   \<and> wrap_int (- 5) = - 5
   \<and> eval_expression left_first (NegativeExpression (Literal 5)) Map.empty
       = (Inr (- 5), Map.empty)"
  using unary_prefix_operators
          [where p = "\<lparr>p_lexer = lexer_done ''+5'', p_cur = Oper Plus, p_next = Num 5\<rparr>"
             and ?p1.0 = "\<lparr>p_lexer = lexer_done ''+5'', p_cur = Num 5, p_next = Eof\<rparr>"]
        unary_prefix_operators
          [where p = "\<lparr>p_lexer = lexer_done ''-5'', p_cur = Oper Minus, p_next = Num 5\<rparr>"
             and ?p1.0 = "\<lparr>p_lexer = lexer_done ''-5'', p_cur = Num 5, p_next = Eof\<rparr>"
             and ?p2.0 = "\<lparr>p_lexer = lexer_done ''-5'', p_cur = Num 5, p_next = Eof\<rparr>"
             and child = "Literal 5" and ord = left_first and ctx = Map.empty and v = 5
             and ctx' = Map.empty]
  by (simp add: read_token_at_end parse_expression_last_token in_int_range_def INT_MIN_def
        INT_MAX_def)

section \<open>The name of an assignment\<close>

text \<open>
  C10. Whenever the second token is \<open>Assign\<close>, \<open>parse_statment\<close> takes the assignment
  branch and reads the name with \<^verbatim>\<open>this->cur.ident\<close> without looking at the tag of the
  first token. When the first token is an identifier, the result is the assignment to
  its name. When it is not, the \<^verbatim>\<open>ident\<close> member is read from a token that holds
  another member: for \<^verbatim>\<open>5 = 3\<close> the first token is the number 5, and the parse is that
  read of the number's storage as a string; the line is neither rejected with a null
  tree nor parsed as an expression.
\<close>

theorem parse_statment_assign_unchecked:
  "(token_type (p_next p) = TAssign \<and> token_type (p_cur p) \<noteq> TIdent \<longrightarrow>
      parse_statment p = Inl UB_inactive_union_member)
   \<and> (token_type (p_next p) = TAssign \<and> p_cur p = Ident name \<and> read_token p = Inr p1
        \<and> read_token p1 = Inr p2 \<and> parse_expression LOWEST p2 = Inr (expr, p3) \<longrightarrow>
      parse_statment p = Inr (Assignment name expr, p3))
   \<and> new_Parser ''5 = 3'' =
       Inr \<lparr>p_lexer = \<lparr>l_input = ''5 = 3'', l_cur = 3, l_next = 4, l_ch = CHR '' ''\<rparr>,
            p_cur = Num 5, p_next = Assign\<rparr>
   \<and> parse_line ''5 = 3'' = Inl UB_inactive_union_member"
proof (intro conjI impI)
  show "parse_statment p = Inl UB_inactive_union_member"
    if "token_type (p_next p) = TAssign \<and> token_type (p_cur p) \<noteq> TIdent"
    using that by (cases "p_cur p") (simp_all add: parse_statment_def)
  show "parse_statment p = Inr (Assignment name expr, p3)"
    if "token_type (p_next p) = TAssign \<and> p_cur p = Ident name \<and> read_token p = Inr p1
        \<and> read_token p1 = Inr p2 \<and> parse_expression LOWEST p2 = Inr (expr, p3)"
    using that by (simp add: parse_statment_def)
  show "new_Parser ''5 = 3'' =
       Inr \<lparr>p_lexer = \<lparr>l_input = ''5 = 3'', l_cur = 3, l_next = 4, l_ch = CHR '' ''\<rparr>,
            p_cur = Num 5, p_next = Assign\<rparr>"
    by (rule new_Parser_5_assign_3)
  show "parse_line ''5 = 3'' = Inl UB_inactive_union_member"
    by (simp add: parse_line_def new_Parser_5_assign_3 parse_statment_def)
qed

theorem parse_statment_assign_unchecked_witness:
  "token_type Assign = TAssign \<and> token_type (Num 5) \<noteq> TIdent
   \<and> parse_statment
       \<lparr>p_lexer = \<lparr>l_input = ''5 = 3'', l_cur = 3, l_next = 4, l_ch = CHR '' ''\<rparr>,
        p_cur = Num 5, p_next = Assign\<rparr> = Inl UB_inactive_union_member
   \<and> parse_statment
       \<lparr>p_lexer = \<lparr>l_input = ''x = 5'', l_cur = 3, l_next = 4, l_ch = CHR '' ''\<rparr>,
        p_cur = Ident ''x'', p_next = Assign\<rparr>
       = Inr (Assignment ''x'' (Literal 5),
              \<lparr>p_lexer = lexer_done ''x = 5'', p_cur = Num 5, p_next = Eof\<rparr>)"
  using parse_statment_assign_unchecked
          [where p = "\<lparr>p_lexer = \<lparr>l_input = ''5 = 3'', l_cur = 3, l_next = 4, l_ch = CHR '' ''\<rparr>,
                       p_cur = Num 5, p_next = Assign\<rparr>"]
        parse_statment_assign_unchecked
          [where p = "\<lparr>p_lexer = \<lparr>l_input = ''x = 5'', l_cur = 3, l_next = 4, l_ch = CHR '' ''\<rparr>,
                       p_cur = Ident ''x'', p_next = Assign\<rparr>"
             and name = "''x''"
             and ?p1.0 = "\<lparr>p_lexer = lexer_done ''x = 5'', p_cur = Assign, p_next = Num 5\<rparr>"
             and ?p2.0 = "\<lparr>p_lexer = lexer_done ''x = 5'', p_cur = Num 5, p_next = Eof\<rparr>"
             and ?p3.0 = "\<lparr>p_lexer = lexer_done ''x = 5'', p_cur = Num 5, p_next = Eof\<rparr>"
             and expr = "Literal 5"]
  by (simp add: read_token_x_assign_5)

section \<open>Division by zero\<close>

text \<open>
  C1, as the specification states it, fails: the lines \<^verbatim>\<open>5/0\<close> and \<^verbatim>\<open>5%0\<close> do not end in
  a reported error. \<open>eval_binary\<close> applies \<^verbatim>\<open>/\<close> and \<^verbatim>\<open>%\<close> to the two values without
  looking at the divisor, and the outcome is the fault of a division by zero, where the
  process may crash.
\<close>

theorem division_by_zero_no_error:
  "repl_statement left_first ''5/0'' Map.empty = (Inl UB_division_by_zero, Map.empty)
   \<and> repl_statement left_first ''5%0'' Map.empty = (Inl UB_division_by_zero, Map.empty)
   \<and> repl_statement right_first ''5/0'' Map.empty = (Inl UB_division_by_zero, Map.empty)
   \<and> repl_statement right_first ''5%0'' Map.empty = (Inl UB_division_by_zero, Map.empty)"
  by (simp add: repl_statement_def parse_line_div_zero parse_line_mod_zero int_arith_defs)

text \<open>
  C1, amended. When both operands of a \<open>Div\<close> or \<open>Mod\<close> node evaluate to values and the
  value of the right operand is 0, the evaluation of the node is the undefined division
  by zero of C++, in whichever order the operands are evaluated: no error value is
  produced, and the environment is the one the operands left. The lines \<^verbatim>\<open>5/0\<close> and
  \<^verbatim>\<open>5%0\<close> end so in every environment.
\<close>

theorem division_by_zero_undefined:
  "((op = Div \<or> op = Mod) \<and> ord op \<and> eval_expression ord left ctx = (Inr a, c1)
      \<and> eval_expression ord right c1 = (Inr 0, c2) \<longrightarrow>
    eval_expression ord (BinaryExpression op left right) ctx = (Inl UB_division_by_zero, c2))
   \<and> ((op = Div \<or> op = Mod) \<and> \<not> ord op \<and> eval_expression ord right ctx = (Inr 0, c1)
      \<and> eval_expression ord left c1 = (Inr a, c2) \<longrightarrow>
    eval_expression ord (BinaryExpression op left right) ctx = (Inl UB_division_by_zero, c2))
   \<and> repl_statement ord ''5/0'' ctx = (Inl UB_division_by_zero, ctx)
   \<and> repl_statement ord ''5%0'' ctx = (Inl UB_division_by_zero, ctx)"
  by (auto simp: repl_statement_def parse_line_div_zero parse_line_mod_zero int_arith_defs)

theorem division_by_zero_undefined_witness:
  "left_first Div
   \<and> eval_expression left_first (Literal 5) Map.empty = (Inr 5, Map.empty)
   \<and> eval_expression left_first (Literal 0) Map.empty = (Inr 0, Map.empty)
   \<and> eval_expression left_first (BinaryExpression Div (Literal 5) (Literal 0)) Map.empty
       = (Inl UB_division_by_zero, Map.empty)
   \<and> \<not> right_first Mod
   \<and> eval_expression right_first (Literal 0) Map.empty = (Inr 0, Map.empty)
   \<and> eval_expression right_first (Literal 5) Map.empty = (Inr 5, Map.empty)
   \<and> eval_expression right_first (BinaryExpression Mod (Literal 5) (Literal 0)) Map.empty
       = (Inl UB_division_by_zero, Map.empty)"
  using division_by_zero_undefined
          [where op = Div and ord = left_first and left = "Literal 5" and right = "Literal 0"
             and ctx = Map.empty and a = 5 and ?c1.0 = Map.empty and ?c2.0 = Map.empty]
        division_by_zero_undefined
          [where op = Mod and ord = right_first and left = "Literal 5" and right = "Literal 0"
             and ctx = Map.empty and a = 5 and ?c1.0 = Map.empty and ?c2.0 = Map.empty]
  by (simp add: left_first_def right_first_def)

section \<open>Malformed input\<close>

text \<open>
  C5, as the specification states it, fails: for the line \<^verbatim>\<open>*5\<close> the parser returns a
  statement whose tree is the null pointer, and the statement goes on to the evaluator,
  which dereferences it. The lines \<^verbatim>\<open>1+\<close> and \<^verbatim>\<open>(1+2\<close> end in the same fault.
\<close>

theorem malformed_input_reaches_evaluator:
  "map_sum id fst (parse_line ''*5'') = Inr (ExpressionStmt Nullptr)
   \<and> eval_statment left_first (ExpressionStmt Nullptr) Map.empty
       = (Inl UB_null_dereference, Map.empty)
   \<and> repl_statement left_first ''*5'' Map.empty = (Inl UB_null_dereference, Map.empty)
   \<and> repl_statement left_first ''1+'' Map.empty = (Inl UB_null_dereference, Map.empty)
   \<and> repl_statement left_first ''(1+2'' Map.empty = (Inl UB_null_dereference, Map.empty)"
  by (simp add: repl_statement_def parse_line_times_5 parse_line_1_plus
        parse_line_open_1_plus_2 left_first_def)

lemma parse_infix_expression_keeps_null:
  assumes "has_null left" and "parse_infix_expression left p = Inr (e, p')"
  shows "has_null e"
  using assms
  by (auto simp: parse_infix_expression.simps split: sum.splits option.splits)

lemma parse_expression_loop_keeps_null:
  "has_null left \<longrightarrow>
     (\<forall>e p'. parse_expression_loop prec left p = Inr (e, p') \<longrightarrow> has_null e)"
proof (rule parse_expression_parse_prefix_expression_parse_grouped_expression_parse_infix_expression_parse_expression_loop.induct(5)
        [where ?P1.0 = "\<lambda>prec p. True" and ?P2.0 = "\<lambda>p. True" and ?P3.0 = "\<lambda>p. True"
           and ?P4.0 = "\<lambda>left p. True"
           and ?P5.0 = "\<lambda>prec left p. has_null left \<longrightarrow>
                 (\<forall>e p'. parse_expression_loop prec left p = Inr (e, p') \<longrightarrow> has_null e)"],
       goal_cases)
  case (5 prec left p)
  show ?case
  proof (intro impI allI)
    fix e p'
    assume n: "has_null left" and r: "parse_expression_loop prec left p = Inr (e, p')"
    show "has_null e"
    proof (cases "not_eof (p_next p) \<and> prec < next_precedence p")
      case False
      with r have "e = left" by (auto simp: parse_expression_loop.simps [of prec left p])
      with n show ?thesis by simp
    next
      case True
      with r obtain p1 op where p1: "read_token p = Inr p1"
        and op: "token_op (p_cur p1) = Inr op"
        and rest: "(if binary_op op \<noteq> None then
                     (case parse_infix_expression left p1 of
                        Inl f \<Rightarrow> Inl f
                      | Inr (left', p2) \<Rightarrow> parse_expression_loop prec left' p2)
                   else Inr (Nullptr, p1)) = Inr (e, p')"
        by (auto simp: parse_expression_loop.simps [of prec left p] split: sum.splits)
      show ?thesis
      proof (cases "binary_op op = None")
        case True
        with rest show ?thesis by auto
      next
        case False
        with rest obtain left' p2 where i: "parse_infix_expression left p1 = Inr (left', p2)"
          and l: "parse_expression_loop prec left' p2 = Inr (e, p')"
          by (auto split: sum.splits)
        from n i have "has_null left'" by (rule parse_infix_expression_keeps_null)
        with 5(2) [OF True p1 op False i refl] l show ?thesis by simp
      qed
    qed
  qed
qed simp_all

text \<open>
  C5, amended. The parser has no error result and reports no parse error; the function
  that meets the defect returns a null pointer in place of the tree. On a token that
  cannot start a prefix term \<open>parse_expression\<close> returns the null pointer and consumes
  nothing. When the token after a binary operator cannot start a prefix term (the end of
  the input is such a token), \<open>parse_infix_expression\<close> returns the binary node with the
  null pointer as its right operand. When the token after the inner expression of a
  group is not \<^verbatim>\<open>)\<close>, \<open>parse_grouped_expression\<close> returns the null pointer. A null pointer
  is not dropped on the way up: from a left operand that is null or contains a null
  pointer, \<open>parse_infix_expression\<close> and the loop of \<open>parse_expression\<close> return a tree
  that is null or contains a null pointer, and \<open>parse_statment\<close> returns the tree of
  \<open>parse_expression\<close> as it is, so a line whose first token cannot start a prefix term
  (and whose second is not \<^verbatim>\<open>=\<close>) is the statement of the null tree. The lines \<^verbatim>\<open>*5\<close> and
  \<^verbatim>\<open>(1+2\<close> parse to the null tree, \<^verbatim>\<open>1+\<close> and \<^verbatim>\<open>1+(2\<close> to the sum of 1 and null, \<^verbatim>\<open>-*5\<close> to
  the negation of null, and \<^verbatim>\<open>1+2*\<close> to the sum of 1 and the product of 2 and null.
\<close>

theorem malformed_input_null_tree:
  "(\<not> starts_prefix_term (p_cur p) \<longrightarrow> parse_expression prec p = Inr (Nullptr, p))
   \<and> (token_op (p_cur p) = Inr op \<and> binary_op op = Some bop \<and> read_token p = Inr p1
        \<and> \<not> starts_prefix_term (p_cur p1) \<longrightarrow>
      parse_infix_expression left p = Inr (BinaryExpression bop left Nullptr, p1))
   \<and> (read_token p = Inr p1 \<and> parse_expression LOWEST p1 = Inr (expr, p2)
        \<and> p_next p2 \<noteq> Oper Rbrace \<longrightarrow>
      parse_grouped_expression p = Inr (Nullptr, p2))
   \<and> (has_null left \<and> parse_infix_expression left p = Inr (e, p') \<longrightarrow> has_null e)
   \<and> (has_null left \<and> parse_expression_loop prec left p = Inr (e, p') \<longrightarrow> has_null e)
   \<and> (token_type (p_next p) \<noteq> TAssign \<and> parse_expression LOWEST p = Inr (expr, p') \<longrightarrow>
      parse_statment p = Inr (ExpressionStmt expr, p'))
   \<and> (token_type (p_next p) \<noteq> TAssign \<and> \<not> starts_prefix_term (p_cur p) \<longrightarrow>
      parse_statment p = Inr (ExpressionStmt Nullptr, p))
   \<and> map_sum id fst (parse_line ''*5'') = Inr (ExpressionStmt Nullptr)
   \<and> map_sum id fst (parse_line ''(1+2'') = Inr (ExpressionStmt Nullptr)
   \<and> map_sum id fst (parse_line ''1+'')
        = Inr (ExpressionStmt (BinaryExpression Add (Literal 1) Nullptr))
   \<and> map_sum id fst (parse_line ''1+(2'')
        = Inr (ExpressionStmt (BinaryExpression Add (Literal 1) Nullptr))
   \<and> map_sum id fst (parse_line ''-*5'') = Inr (ExpressionStmt (NegativeExpression Nullptr))
   \<and> map_sum id fst (parse_line ''1+2*'')
        = Inr (ExpressionStmt
            (BinaryExpression Add (Literal 1) (BinaryExpression Prod (Literal 2) Nullptr)))"
proof (intro conjI impI)
  have null: "parse_expression prec' q = Inr (Nullptr, q)"
    if "\<not> starts_prefix_term (p_cur q)" for prec' q
    using that by (cases "p_cur q") (auto simp: parse_expression.simps)
  show "parse_expression prec p = Inr (Nullptr, p)" if "\<not> starts_prefix_term (p_cur p)"
    using that by (rule null)
  show "parse_infix_expression left p = Inr (BinaryExpression bop left Nullptr, p1)"
    if "token_op (p_cur p) = Inr op \<and> binary_op op = Some bop \<and> read_token p = Inr p1
        \<and> \<not> starts_prefix_term (p_cur p1)"
    using that by (simp add: parse_infix_expression.simps null)
  show "parse_grouped_expression p = Inr (Nullptr, p2)"
    if "read_token p = Inr p1 \<and> parse_expression LOWEST p1 = Inr (expr, p2)
        \<and> p_next p2 \<noteq> Oper Rbrace"
    using that by (cases "p_next p2") (auto simp: parse_grouped_expression.simps)
  show "has_null e" if "has_null left \<and> parse_infix_expression left p = Inr (e, p')"
    using that parse_infix_expression_keeps_null by blast
  show "has_null e" if "has_null left \<and> parse_expression_loop prec left p = Inr (e, p')"
    using that parse_expression_loop_keeps_null by blast
  show "parse_statment p = Inr (ExpressionStmt expr, p')"
    if "token_type (p_next p) \<noteq> TAssign \<and> parse_expression LOWEST p = Inr (expr, p')"
    using that by (simp add: parse_statment_def)
  show "parse_statment p = Inr (ExpressionStmt Nullptr, p)"
    if "token_type (p_next p) \<noteq> TAssign \<and> \<not> starts_prefix_term (p_cur p)"
    using that by (simp add: parse_statment_def null)
qed (simp_all add: parse_line_times_5 parse_line_1_plus parse_line_open_1_plus_2
       parse_line_neg_times_5 parse_line_1_plus_open_2 parse_line_1_plus_2_times)

theorem malformed_input_null_tree_witness:
  "\<not> starts_prefix_term (Oper Asterisk) \<and> token_type (Num 5) \<noteq> TAssign
   \<and> parse_expression LOWEST
         \<lparr>p_lexer = lexer_done ''*5'', p_cur = Oper Asterisk, p_next = Num 5\<rparr>
       = Inr (Nullptr, \<lparr>p_lexer = lexer_done ''*5'', p_cur = Oper Asterisk, p_next = Num 5\<rparr>)
   \<and> parse_statment \<lparr>p_lexer = lexer_done ''*5'', p_cur = Oper Asterisk, p_next = Num 5\<rparr>
       = Inr (ExpressionStmt Nullptr,
              \<lparr>p_lexer = lexer_done ''*5'', p_cur = Oper Asterisk, p_next = Num 5\<rparr>)
   \<and> read_token \<lparr>p_lexer = lexer_done ''1+'', p_cur = Oper Plus, p_next = Eof\<rparr>
       = Inr \<lparr>p_lexer = lexer_done ''1+'', p_cur = Eof, p_next = Eof\<rparr>
   \<and> \<not> starts_prefix_term Eof
   \<and> parse_infix_expression (Literal 1)
         \<lparr>p_lexer = lexer_done ''1+'', p_cur = Oper Plus, p_next = Eof\<rparr>
       = Inr (BinaryExpression Add (Literal 1) Nullptr,
              \<lparr>p_lexer = lexer_done ''1+'', p_cur = Eof, p_next = Eof\<rparr>)
   \<and> read_token \<lparr>p_lexer = lexer_done ''(1'', p_cur = Oper Lbrace, p_next = Num 1\<rparr>
       = Inr \<lparr>p_lexer = lexer_done ''(1'', p_cur = Num 1, p_next = Eof\<rparr>
   \<and> parse_expression LOWEST \<lparr>p_lexer = lexer_done ''(1'', p_cur = Num 1, p_next = Eof\<rparr>
       = Inr (Literal 1, \<lparr>p_lexer = lexer_done ''(1'', p_cur = Num 1, p_next = Eof\<rparr>)
   \<and> parse_grouped_expression
         \<lparr>p_lexer = lexer_done ''(1'', p_cur = Oper Lbrace, p_next = Num 1\<rparr>
       = Inr (Nullptr, \<lparr>p_lexer = lexer_done ''(1'', p_cur = Num 1, p_next = Eof\<rparr>)
   \<and> has_null Nullptr
   \<and> parse_infix_expression Nullptr
         \<lparr>p_lexer = lexer_done ''1+'', p_cur = Oper Plus, p_next = Eof\<rparr>
       = Inr (BinaryExpression Add Nullptr Nullptr,
              \<lparr>p_lexer = lexer_done ''1+'', p_cur = Eof, p_next = Eof\<rparr>)
   \<and> has_null (BinaryExpression Add Nullptr Nullptr)
   \<and> parse_expression_loop LOWEST Nullptr
         \<lparr>p_lexer = \<lparr>l_input = ''(*+3'', l_cur = 3, l_next = 4, l_ch = CHR ''3''\<rparr>,
          p_cur = Oper Asterisk, p_next = Oper Plus\<rparr>
       = Inr (BinaryExpression Add Nullptr (Literal 3),
              \<lparr>p_lexer = lexer_done ''(*+3'', p_cur = Num 3, p_next = Eof\<rparr>)
   \<and> has_null (BinaryExpression Add Nullptr (Literal 3))"
proof -
  let ?star = "\<lparr>p_lexer = lexer_done ''*5'', p_cur = Oper Asterisk, p_next = Num 5\<rparr>"
  let ?plus = "\<lparr>p_lexer = lexer_done ''1+'', p_cur = Oper Plus, p_next = Eof\<rparr>"
  let ?plus1 = "\<lparr>p_lexer = lexer_done ''1+'', p_cur = Eof, p_next = Eof\<rparr>"
  let ?open = "\<lparr>p_lexer = lexer_done ''(1'', p_cur = Oper Lbrace, p_next = Num 1\<rparr>"
  let ?open1 = "\<lparr>p_lexer = lexer_done ''(1'', p_cur = Num 1, p_next = Eof\<rparr>"
  let ?mid = "\<lparr>p_lexer = \<lparr>l_input = ''(*+3'', l_cur = 3, l_next = 4, l_ch = CHR ''3''\<rparr>,
               p_cur = Oper Asterisk, p_next = Oper Plus\<rparr>"
  let ?last = "\<lparr>p_lexer = lexer_done ''(*+3'', p_cur = Num 3, p_next = Eof\<rparr>"
  have a: "parse_expression LOWEST ?star = Inr (Nullptr, ?star)"
    using malformed_input_null_tree [where p = ?star and prec = LOWEST, THEN conjunct1]
    by simp
  have b: "parse_infix_expression (Literal 1) ?plus
             = Inr (BinaryExpression Add (Literal 1) Nullptr, ?plus1)"
    using malformed_input_null_tree
            [where p = ?plus and ?p1.0 = ?plus1 and op = Plus and bop = Add
               and left = "Literal 1", THEN conjunct2, THEN conjunct1]
    by (simp add: read_token_at_end)
  have c: "parse_grouped_expression ?open = Inr (Nullptr, ?open1)"
    using malformed_input_null_tree
            [where p = ?open and ?p1.0 = ?open1 and ?p2.0 = ?open1 and expr = "Literal 1",
             THEN conjunct2, THEN conjunct2, THEN conjunct1]
    by (simp add: read_token_at_end parse_expression_last_token)
  have b': "parse_infix_expression Nullptr ?plus
              = Inr (BinaryExpression Add Nullptr Nullptr, ?plus1)"
    using malformed_input_null_tree
            [where p = ?plus and ?p1.0 = ?plus1 and op = Plus and bop = Add
               and left = Nullptr, THEN conjunct2, THEN conjunct1]
    by (simp add: read_token_at_end)
  have d: "has_null (BinaryExpression Add Nullptr Nullptr)"
    using malformed_input_null_tree
            [where p = ?plus and left = Nullptr and e = "BinaryExpression Add Nullptr Nullptr"
               and p' = ?plus1,
             THEN conjunct2, THEN conjunct2, THEN conjunct2, THEN conjunct1] b'
    by simp
  have e: "has_null (BinaryExpression Add Nullptr (Literal 3))"
    using malformed_input_null_tree
            [where p = ?mid and prec = LOWEST and left = Nullptr
               and e = "BinaryExpression Add Nullptr (Literal 3)" and p' = ?last,
             THEN conjunct2, THEN conjunct2, THEN conjunct2, THEN conjunct2, THEN conjunct1]
    by (simp add: parse_expression_loop_null_left)
  have f: "parse_statment ?star = Inr (ExpressionStmt Nullptr, ?star)"
    using malformed_input_null_tree
            [where p = ?star and expr = Nullptr and p' = ?star,
             THEN conjunct2, THEN conjunct2, THEN conjunct2, THEN conjunct2, THEN conjunct2,
             THEN conjunct1] a
    by simp
  have g: "parse_statment ?star = Inr (ExpressionStmt Nullptr, ?star)"
    using malformed_input_null_tree
            [where p = ?star,
             THEN conjunct2, THEN conjunct2, THEN conjunct2, THEN conjunct2, THEN conjunct2,
             THEN conjunct2, THEN conjunct1]
    by simp
  show ?thesis
    using a b c b' d e f g
    by (simp add: read_token_at_end parse_expression_last_token
          parse_expression_loop_null_left)
qed

section \<open>The environment after a fault\<close>







section \<open>Tokens after the statement\<close>





end
